theory Spec2Isabelle
  imports Complex_Main "HOL-Library.Stream"
begin

section \<open>Coordinates and the geometry collaborator\<close>

text \<open>
  \<^verbatim>\<open>api.Location\<close> is a struct of four \<^verbatim>\<open>float64\<close> fields. The fields are modelled as
  real numbers: rounding of the floating-point operations is not part of the model.
  The walk of \<^verbatim>\<open>generateHoneyComb\<close> allocates a fresh \<^verbatim>\<open>api.Location\<close> at every step, so the
  generated slice holds pairwise distinct objects and a list of records represents it.
\<close>

record Location =
  Lat :: real
  Lon :: real
  Alt :: real
  Accuracy :: real

text \<open>
  The package \<^verbatim>\<open>golang-geo\<close> is not part of the repository. Its three operations used by
  \<^verbatim>\<open>locations.go\<close> are parameters of the model: points are pairs (latitude, longitude),
  distances of the library are kilometres, a polygon is its list of vertices.
\<close>

record geo =
  PointAtDistanceAndBearing :: "real \<times> real \<Rightarrow> real \<Rightarrow> real \<Rightarrow> real \<times> real"
  GreatCircleDistance :: "real \<times> real \<Rightarrow> real \<times> real \<Rightarrow> real"
  Contains :: "(real \<times> real) list \<Rightarrow> real \<times> real \<Rightarrow> bool"

definition NORTH :: real where "NORTH = 0"
definition EAST :: real where "EAST = 90"
definition SOUTH :: real where "SOUTH = 180"
definition WEST :: real where "WEST = 270"

definition newLocation :: "geo \<Rightarrow> Location \<Rightarrow> real \<Rightarrow> real \<Rightarrow> Location" where
  "newLocation g location dist_m bearing =
     (let point = PointAtDistanceAndBearing g (Lat location, Lon location) (dist_m / 1000) bearing
      in \<lparr>Lat = fst point, Lon = snd point, Alt = Alt location, Accuracy = Accuracy location\<rparr>)"

text \<open>
  The latitude and longitude of a location: what \<^verbatim>\<open>geo.NewPoint(p.Lat, p.Lon)\<close> is built from,
  and what the text \<^verbatim>\<open>"%f,%f"\<close> of an elevation request names.
\<close>

definition latLng :: "Location \<Rightarrow> real \<times> real" where
  "latLng l = (Lat l, Lon l)"

section \<open>Accuracy jitter\<close>

text \<open>
  \<^verbatim>\<open>rand.Intn(n)\<close> returns a number in \<open>[0, n)\<close>. The model takes the raw draw of the
  generator as an argument \<open>rnd\<close> and reduces it modulo \<open>n\<close>, which ranges over exactly
  that interval.
\<close>

definition choices :: "real list" where
  "choices = [5, 5, 5, 10, 10, 30, 50, 65]"

definition setRandomAccuracy :: "nat \<Rightarrow> Location \<Rightarrow> Location" where
  "setRandomAccuracy rnd location = location\<lparr>Accuracy := choices ! (rnd mod length choices)\<rparr>"

section \<open>The fixed provider\<close>

record DefaultLocationProvider =
  StartLocation :: Location

definition DefaultLocationProvider_GetLocations :: "DefaultLocationProvider \<Rightarrow> Location list" where
  "DefaultLocationProvider_GetLocations d = [StartLocation d]"

text \<open>
  \<^verbatim>\<open>StartLocation\<close> is a pointer: the call overwrites the accuracy of the object it points
  to and returns the same pointer. The model returns the object as it is at the moment
  of the return, together with the provider holding the updated object.
\<close>

definition DefaultLocationProvider_NextLocation ::
    "DefaultLocationProvider \<Rightarrow> nat \<Rightarrow> Location \<times> DefaultLocationProvider" where
  "DefaultLocationProvider_NextLocation d rnd =
     (let l = setRandomAccuracy rnd (StartLocation d)
      in (l, d\<lparr>StartLocation := l\<rparr>))"

text \<open>A sequence of calls, one raw draw per call; the result lists what each call returned.\<close>

fun DefaultLocationProvider_calls :: "DefaultLocationProvider \<Rightarrow> nat list \<Rightarrow> Location list" where
  "DefaultLocationProvider_calls d [] = []"
| "DefaultLocationProvider_calls d (rnd # rnds) =
     (case DefaultLocationProvider_NextLocation d rnd of
        (l, d') \<Rightarrow> l # DefaultLocationProvider_calls d' rnds)"

section \<open>The honeycomb generator\<close>

text \<open>
  One of the six inner loops \<^verbatim>\<open>for i := 0; i < ring; i++\<close>: each round moves the current
  location and appends it. The state is the pair of \<^verbatim>\<open>currentLocation\<close> and \<^verbatim>\<open>locations\<close>.
\<close>

fun edge :: "(Location \<Rightarrow> Location) \<Rightarrow> nat \<Rightarrow> Location \<times> Location list \<Rightarrow> Location \<times> Location list" where
  "edge move 0 (cur, locs) = (cur, locs)"
| "edge move (Suc n) (cur, locs) = edge move n (move cur, locs @ [move cur])"

text \<open>The body of the outer loop for one value of \<^verbatim>\<open>ring\<close>.\<close>

definition ring_body :: "geo \<Rightarrow> real \<Rightarrow> real \<Rightarrow> int \<Rightarrow> Location \<times> Location list \<Rightarrow> Location \<times> Location list" where
  "ring_body g dx dy ring s =
     (let s0 = (newLocation g (fst s) dx EAST, snd s);
          s1 = edge (\<lambda>c. newLocation g (newLocation g c dy NORTH) (dx / 2) WEST) (nat ring) s0;
          s2 = edge (\<lambda>c. newLocation g c dx WEST) (nat ring) s1;
          s3 = edge (\<lambda>c. newLocation g (newLocation g c (dx / 2) WEST) dy SOUTH) (nat ring) s2;
          s4 = edge (\<lambda>c. newLocation g (newLocation g c dy SOUTH) (dx / 2) EAST) (nat ring) s3;
          s5 = edge (\<lambda>c. newLocation g c dx EAST) (nat ring) s4
      in edge (\<lambda>c. newLocation g (newLocation g c (dx / 2) EAST) dy NORTH) (nat ring) s5)"

text \<open>The outer loop \<^verbatim>\<open>for ring := 1; ring < rings; ring++\<close>, entered with \<open>ring\<close>.\<close>

function ring_loop :: "geo \<Rightarrow> real \<Rightarrow> real \<Rightarrow> int \<Rightarrow> int \<Rightarrow> Location \<times> Location list \<Rightarrow> Location \<times> Location list" where
  "ring_loop g dx dy ring rings s =
     (if ring < rings then ring_loop g dx dy (ring + 1) rings (ring_body g dx dy ring s) else s)"
  by pat_completeness auto
termination
  by (relation "measure (\<lambda>(g, dx, dy, ring, rings, s). nat (rings - ring))") auto

declare ring_loop.simps [simp del]

text \<open>
  \<^verbatim>\<open>rings := int(math.Ceil(radius / dx))\<close>. The model is meant for a non-zero \<open>distance\<close>:
  with \<open>distance = 0\<close> the Go quotient is an infinity or a NaN, whose conversion to
  \<^verbatim>\<open>int\<close> the language leaves to the implementation.
\<close>

definition generateHoneyComb :: "geo \<Rightarrow> Location \<Rightarrow> real \<Rightarrow> real \<Rightarrow> Location list" where
  "generateHoneyComb g center radius distance =
     (let dx = sqrt 3 * distance;
          dy = 3 * (distance / 2);
          rings = \<lceil>radius / dx\<rceil>
      in snd (ring_loop g dx dy 1 rings (center, [])))"

text \<open>
  The coordinates one ring appends, as a list of their own, and the rings in the order
  they are walked. These two describe the result ring by ring; \<open>generateHoneyComb\<close>
  above is the translation of the code.
\<close>

function ring_segments :: "geo \<Rightarrow> real \<Rightarrow> real \<Rightarrow> int \<Rightarrow> int \<Rightarrow> Location \<Rightarrow> Location list list" where
  "ring_segments g dx dy ring rings cur =
     (if ring < rings
      then snd (ring_body g dx dy ring (cur, []))
             # ring_segments g dx dy (ring + 1) rings (fst (ring_body g dx dy ring (cur, [])))
      else [])"
  by pat_completeness auto
termination
  by (relation "measure (\<lambda>(g, dx, dy, ring, rings, cur). nat (rings - ring))") auto

declare ring_segments.simps [simp del]

definition honeycomb_rings :: "geo \<Rightarrow> Location \<Rightarrow> real \<Rightarrow> real \<Rightarrow> Location list list" where
  "honeycomb_rings g center radius distance =
     ring_segments g (sqrt 3 * distance) (3 * (distance / 2)) 1 \<lceil>radius / (sqrt 3 * distance)\<rceil> center"

section \<open>The honeycomb provider\<close>

record HoneyCombProvider =
  CenterLocation :: Location
  Locations :: "Location list"
  CurrentStep :: int
  Radius :: real

definition NewHoneyCombProvider :: "geo \<Rightarrow> Location \<Rightarrow> real \<Rightarrow> real \<Rightarrow> HoneyCombProvider" where
  "NewHoneyCombProvider g center radius distance =
     \<lparr>CenterLocation = center,
      Locations = [] @ generateHoneyComb g center radius distance,
      CurrentStep = - 1,
      Radius = radius\<rparr>"

definition HoneyCombProvider_GetLocations :: "HoneyCombProvider \<Rightarrow> Location list" where
  "HoneyCombProvider_GetLocations h = Locations h"

text \<open>
  A Go index expression panics when the index is outside the slice. \<open>Panic\<close> is that
  outcome; \<open>Returned\<close> carries the result of a call that returns.
\<close>

datatype 'a outcome = Returned 'a | Panic

text \<open>
  \<^verbatim>\<open>NextLocation\<close> has a pointer receiver: the cursor is updated in place, and the indexed
  element is the object that \<^verbatim>\<open>setRandomAccuracy\<close> overwrites and that is returned.
\<close>

definition HoneyCombProvider_NextLocation ::
    "HoneyCombProvider \<Rightarrow> nat \<Rightarrow> (Location \<times> HoneyCombProvider) outcome" where
  "HoneyCombProvider_NextLocation h rnd =
     (let step = CurrentStep h + 1;
          step = (if step \<ge> int (length (Locations h)) then 0 else step)
      in if 0 \<le> step \<and> step < int (length (Locations h))
         then (let l = setRandomAccuracy rnd (Locations h ! nat step)
               in Returned (l, h\<lparr>CurrentStep := step, Locations := (Locations h)[nat step := l]\<rparr>))
         else Panic)"

section \<open>Altitude enrichment\<close>

text \<open>
  Go errors. \<^verbatim>\<open>api.ErrNewRPCURL\<close> is a sentinel value the worker compares with \<^verbatim>\<open>==\<close>; every
  other error is told apart by its message.
\<close>

datatype error = ErrNewRPCURL | Err string

text \<open>
  One request to the elevation service ends in one of the three early returns of the
  loop body (\<^verbatim>\<open>http.Get\<close>, \<^verbatim>\<open>ioutil.ReadAll\<close>, \<^verbatim>\<open>json.Unmarshal\<close>) or yields the elevations of
  \<^verbatim>\<open>response.Results\<close>. The service is a parameter: the answer to the \<open>i\<close>-th request, given the
  coordinate pairs the request names. The \<^verbatim>\<open>Status\<close> field of the response is never read by
  the code and is not part of the model.
\<close>

datatype http_outcome =
    GetFailed error
  | ReadFailed error
  | UnmarshalFailed error
  | Results "real list"

type_synonym elevation_api = "nat \<Rightarrow> (real \<times> real) list \<Rightarrow> http_outcome"

definition rateLimit :: nat where
  "rateLimit = 405"

text \<open>\<^verbatim>\<open>int(math.Ceil(float64(len(locations)) / float64(rateLimit)))\<close>\<close>

definition numRequests :: "nat \<Rightarrow> nat" where
  "numRequests n = nat \<lceil>real n / real rateLimit\<rceil>"

text \<open>
  The slice \<^verbatim>\<open>latLngPairs[i*rateLimit:upper]\<close> of request \<open>i\<close>, with \<open>upper\<close> clamped to the length.
  For every \<open>i\<close> the loop reaches, \<open>i * rateLimit\<close> is below the length (lemma
  \<open>numRequests_bounds2\<close>), so the slice expression is in range.
\<close>

definition batch :: "'a list \<Rightarrow> nat \<Rightarrow> 'a list" where
  "batch latLngPairs i =
     (let upper = i * rateLimit + rateLimit;
          upper = (if upper > length latLngPairs then length latLngPairs else upper)
      in take (upper - i * rateLimit) (drop (i * rateLimit) latLngPairs))"

text \<open>
  \<^verbatim>\<open>for j, e := range response.Results { elevations[j+(rateLimit*i)] = e.Elevation }\<close>, entered
  with the index \<open>k = j + rateLimit * i\<close>. The assignment panics outside the slice.
\<close>

fun store_results :: "real list \<Rightarrow> nat \<Rightarrow> real list \<Rightarrow> real list outcome" where
  "store_results elevations k [] = Returned elevations"
| "store_results elevations k (e # es) =
     (if k < length elevations then store_results (elevations[k := e]) (Suc k) es else Panic)"

text \<open>
  The request loop \<^verbatim>\<open>for i := 0; i < numRequests; i++\<close>, entered with \<open>i\<close>. Beside the
  result the model keeps \<open>sent\<close>, the coordinate lists of the requests made so far: the
  calls of \<^verbatim>\<open>http.Get\<close> are the effect of the loop.
\<close>

function request_loop ::
    "elevation_api \<Rightarrow> (real \<times> real) list \<Rightarrow> nat \<Rightarrow> nat \<Rightarrow> real list \<Rightarrow> (real \<times> real) list list
       \<Rightarrow> (real list \<times> error option) outcome \<times> (real \<times> real) list list" where
  "request_loop api latLngPairs i n elevations sent =
     (if i < n
      then (case api i (batch latLngPairs i) of
              GetFailed err \<Rightarrow> (Returned (elevations, Some err), sent @ [batch latLngPairs i])
            | ReadFailed err \<Rightarrow> (Returned (elevations, Some err), sent @ [batch latLngPairs i])
            | UnmarshalFailed err \<Rightarrow> (Returned (elevations, Some err), sent @ [batch latLngPairs i])
            | Results rs \<Rightarrow>
                (case store_results elevations (rateLimit * i) rs of
                   Panic \<Rightarrow> (Panic, sent @ [batch latLngPairs i])
                 | Returned elevations' \<Rightarrow>
                     request_loop api latLngPairs (i + 1) n elevations' (sent @ [batch latLngPairs i])))
      else (Returned (elevations, None), sent))"
  by pat_completeness auto
termination
  by (relation "measure (\<lambda>(api, latLngPairs, i, n, elevations, sent). n - i)") auto

declare request_loop.simps [simp del]

text \<open>\<open>GetAltitude\<close> with the requests it made; \<open>GetAltitude\<close> is what the Go function returns.\<close>

definition GetAltitude_requests ::
    "elevation_api \<Rightarrow> Location list \<Rightarrow> (real list \<times> error option) outcome \<times> (real \<times> real) list list" where
  "GetAltitude_requests api locations =
     (let latLngPairs = map latLng locations;
          elevations = replicate (length locations) 0
      in request_loop api latLngPairs 0 (numRequests (length locations)) elevations [])"

definition GetAltitude :: "elevation_api \<Rightarrow> Location list \<Rightarrow> (real list \<times> error option) outcome" where
  "GetAltitude api locations = fst (GetAltitude_requests api locations)"



text \<open>
  \<^verbatim>\<open>SetCorrectAltitudes\<close> writes through the pointers of the slice; the model returns the
  slice with the objects as they are afterwards.
\<close>

definition SetCorrectAltitudes :: "elevation_api \<Rightarrow> Location list \<Rightarrow> (Location list \<times> error option) outcome" where
  "SetCorrectAltitudes api locations =
     (case GetAltitude api locations of
        Panic \<Rightarrow> Panic
      | Returned (elevations, Some err) \<Rightarrow> Returned (locations, Some err)
      | Returned (elevations, None) \<Rightarrow>
          Returned (map (\<lambda>(l, e). l\<lparr>Alt := e\<rparr>) (zip locations elevations), None))"

section \<open>The polygon provider\<close>

text \<open>\<^verbatim>\<open>Polygon\<close> is a pointer, \<open>None\<close> when nil; a polygon is the list of its vertices.\<close>

record PolygonProvider =
  Polygon :: "(real \<times> real) list option"
  Locations_p :: "Location list"
  currentLocation :: int

text \<open>The zero value \<^verbatim>\<open>PolygonProvider{}\<close>.\<close>

definition PolygonProvider_zero :: PolygonProvider where
  "PolygonProvider_zero = \<lparr>Polygon = None, Locations_p = [], currentLocation = 0\<rparr>"

text \<open>
  The first part of \<^verbatim>\<open>NewPolygonProvider\<close>, up to the filtered honeycomb \<^verbatim>\<open>final\<close>. It is
  evaluated for a non-empty vertex list only: \<^verbatim>\<open>polyPoints[0]\<close> panics on an empty one.
\<close>

definition polygon_radius :: "geo \<Rightarrow> (real \<times> real) list \<Rightarrow> real" where
  "polygon_radius g polyPoints =
     foldl (\<lambda>radius p.
        if GreatCircleDistance g (hd polyPoints) p > radius
        then GreatCircleDistance g (hd polyPoints) p else radius) 0 polyPoints"

definition polygon_final :: "geo \<Rightarrow> (real \<times> real) list \<Rightarrow> Location list" where
  "polygon_final g polyPoints =
     (let start = hd polyPoints;
          radius = 1000 * polygon_radius g polyPoints;
          honey = generateHoneyComb g \<lparr>Lat = fst start, Lon = snd start, Alt = 0, Accuracy = 0\<rparr> radius 70
      in filter (\<lambda>h. Contains g polyPoints (latLng h)) honey)"

definition NewPolygonProvider ::
    "geo \<Rightarrow> elevation_api \<Rightarrow> Location list \<Rightarrow> (PolygonProvider \<times> error option) outcome" where
  "NewPolygonProvider g api polyLocations =
     (let polyPoints = map latLng polyLocations
      in if polyPoints = [] then Panic
         else (case SetCorrectAltitudes api (polygon_final g polyPoints) of
                 Panic \<Rightarrow> Panic
               | Returned (final, Some err) \<Rightarrow> Returned (PolygonProvider_zero, Some err)
               | Returned (final, None) \<Rightarrow>
                   Returned (\<lparr>Polygon = Some polyPoints, Locations_p = final, currentLocation = - 1\<rparr>, None)))"

definition PolygonProvider_GetLocations :: "PolygonProvider \<Rightarrow> Location list" where
  "PolygonProvider_GetLocations p = Locations_p p"

definition PolygonProvider_NextLocation ::
    "PolygonProvider \<Rightarrow> nat \<Rightarrow> (Location \<times> PolygonProvider) outcome" where
  "PolygonProvider_NextLocation p rnd =
     (let cur = currentLocation p + 1;
          cur = (if cur \<ge> int (length (Locations_p p)) then 0 else cur)
      in if 0 \<le> cur \<and> cur < int (length (Locations_p p))
         then (let l = setRandomAccuracy rnd (Locations_p p ! nat cur)
               in Returned (l, p\<lparr>currentLocation := cur, Locations_p := (Locations_p p)[nat cur := l]\<rparr>))
         else Panic)"

section \<open>The scan store\<close>

text \<open>
  \<^verbatim>\<open>ExecuteStatement\<close> opens the database, executes one statement and reports an error or
  none. The statements \<^verbatim>\<open>AddScannedLocation\<close> builds are told apart by their kind and
  coordinates (the time stamp in their text is left out).
\<close>

datatype statement = Insert real real | Update real real

section \<open>The worker\<close>

text \<open>
  The remote session is not part of the repository. The worker observes it through
  \<^verbatim>\<open>IsExpired\<close> only: a session carries the instant from which on it counts as expired, read
  against a clock that never runs backwards. The zero session \<^verbatim>\<open>&api.Session{}\<close> of
  \<^verbatim>\<open>NewTrainerSession\<close> has the instant \<open>0\<close> and is expired at every time.
\<close>

record Session =
  expires :: nat

definition IsExpired :: "Session \<Rightarrow> nat \<Rightarrow> bool" where
  "IsExpired s t = (expires s \<le> t)"

datatype MapObjects = MapObjects nat

text \<open>
  The outcome of one \<^verbatim>\<open>Login\<close>: \<^verbatim>\<open>auth.NewProvider\<close> fails, \<^verbatim>\<open>session.Init\<close> fails, or the new
  session is installed.
\<close>

datatype login_outcome = ProviderError error | InitError error | LoggedIn Session

text \<open>The error a login returns, \<open>None\<close> for \<^verbatim>\<open>nil\<close>.\<close>

definition login_error :: "login_outcome \<Rightarrow> error option" where
  "login_error out =
     (case out of ProviderError err \<Rightarrow> Some err | InitError err \<Rightarrow> Some err | LoggedIn session \<Rightarrow> None)"

datatype logmsg =
    AuthTicketExpired
  | LoginFailed error
  | AllLoginAttemptsFailed
  | FailedToGetLocation
  | HuntingAt real real
  | LoggedError error

text \<open>
  What the worker does to the world outside, in the order it does it: a permit taken
  from \<^verbatim>\<open>ticks\<close>, a login, a sleep (its argument, a \<^verbatim>\<open>time.Duration\<close> in nanoseconds), the
  two ways the \<^verbatim>\<open>select\<close> ends, the move of the session, the map-objects call, a response
  sent to \<^verbatim>\<open>results\<close>, a statement executed on the database, a line of the log.
\<close>

datatype event =
    Tick
  | LoginCall
  | Sleep int
  | Received Location
  | TimedOut int
  | MovedTo Location
  | GetPlayerMapCall
  | Publish MapObjects
  | Exec statement
  | Log logmsg

text \<open>
  The state of one worker and of its surroundings. \<open>Location\<close> and \<open>Session\<close> are the
  fields of \<^verbatim>\<open>TrainerSession\<close> the loop reads and writes; \<open>now\<close> is the clock in
  nanoseconds and \<open>trace\<close> the events so far. The other fields are what the surroundings
  will answer, each a stream read from its head: the time waited for each permit, the
  outcome of each login, each coordinate of the queue with the time after which it is
  there, the outcome of each map-objects call and of each statement. The clock advances
  where the worker blocks (a permit, a sleep, the \<^verbatim>\<open>select\<close>); a send to \<^verbatim>\<open>results\<close> is
  taken to be accepted.
\<close>

record world =
  now :: nat
  Location :: Location
  Session :: Session
  trace :: "event list"
  ticks :: "nat stream"
  logins :: "login_outcome stream"
  arrivals :: "(nat \<times> Location) stream"
  calls :: "(error + MapObjects) stream"
  execs :: "error option stream"

text \<open>\<^verbatim>\<open>time.Second\<close>, and the value the variable \<^verbatim>\<open>ScanDelay\<close> is initialised with.\<close>

definition Second :: int where
  "Second = 1000000000"

definition ScanDelay :: int where
  "ScanDelay = 10"

definition emit :: "event \<Rightarrow> world \<Rightarrow> world" where
  "emit e w = w\<lparr>trace := trace w @ [e]\<rparr>"

text \<open>\<^verbatim>\<open><-ticks\<close>\<close>

definition recv_ticks :: "world \<Rightarrow> world" where
  "recv_ticks w = w\<lparr>now := now w + shd (ticks w), ticks := stl (ticks w), trace := trace w @ [Tick]\<rparr>"

text \<open>\<^verbatim>\<open>time.Sleep(d)\<close> returns at once for a duration that is not positive.\<close>

definition time_Sleep :: "int \<Rightarrow> world \<Rightarrow> world" where
  "time_Sleep d w = w\<lparr>now := now w + nat d, trace := trace w @ [Sleep d]\<rparr>"

definition Login :: "world \<Rightarrow> error option \<times> world" where
  "Login w =
     (let w' = w\<lparr>logins := stl (logins w), trace := trace w @ [LoginCall]\<rparr>
      in case shd (logins w) of
           ProviderError err \<Rightarrow> (Some err, w')
         | InitError err \<Rightarrow> (Some err, w')
         | LoggedIn session \<Rightarrow> (None, w'\<lparr>Session := session\<rparr>))"

text \<open>The retry loop \<^verbatim>\<open>for i := 0; i < 5; i++\<close>, entered with \<open>i\<close>.\<close>

function login_retries :: "int \<Rightarrow> world \<Rightarrow> world" where
  "login_retries i w =
     (if i < 5
      then (case Login (recv_ticks w) of
              (Some err, w') \<Rightarrow> login_retries (i + 1) (time_Sleep (i * 10) (emit (Log (LoginFailed err)) w'))
            | (None, w') \<Rightarrow> w')
      else w)"
  by pat_completeness auto
termination
  by (relation "measure (\<lambda>(i, w). nat (5 - i))") auto

declare login_retries.simps [simp del]

datatype verdict = Continue | Abandoned

text \<open>The check of the login status that opens every round of the loop.\<close>

definition check_login :: "world \<Rightarrow> verdict \<times> world" where
  "check_login w =
     (if IsExpired (Session w) (now w)
      then (let w' = login_retries 0 (emit (Log AuthTicketExpired) w)
            in if IsExpired (Session w') (now w')
               then (Abandoned, emit (Log AllLoginAttemptsFailed) w')
               else (Continue, w'))
      else (Continue, w))"

text \<open>
  The \<^verbatim>\<open>select\<close> between the queue and \<^verbatim>\<open>time.After(30 * time.Second)\<close>. The head of
  \<open>arrivals\<close> says after how long the next coordinate is there; the timer wins when that
  is not before the timer fires, and the coordinate then stays in the queue.
\<close>

definition select_location :: "world \<Rightarrow> Location option \<times> world" where
  "select_location w =
     (let (d, l) = shd (arrivals w)
      in if int d < 30 * Second
         then (Some l, w\<lparr>now := now w + d, arrivals := stl (arrivals w), trace := trace w @ [Received l]\<rparr>)
         else (None, w\<lparr>now := now w + nat (30 * Second), trace := trace w @ [TimedOut (30 * Second)]\<rparr>))"

definition MoveTo :: "Location \<Rightarrow> world \<Rightarrow> world" where
  "MoveTo location w = emit (MovedTo location) (w\<lparr>Location := location\<rparr>)"

definition ExecuteStatement :: "statement \<Rightarrow> world \<Rightarrow> error option \<times> world" where
  "ExecuteStatement st w = (shd (execs w), w\<lparr>execs := stl (execs w), trace := trace w @ [Exec st]\<rparr>)"

definition AddScannedLocation :: "real \<Rightarrow> real \<Rightarrow> world \<Rightarrow> error option \<times> world" where
  "AddScannedLocation latitude longitude w =
     (case ExecuteStatement (Insert latitude longitude) w of
        (Some err, w') \<Rightarrow> ExecuteStatement (Update latitude longitude) w'
      | (None, w') \<Rightarrow> (None, w'))"

text \<open>The closure \<^verbatim>\<open>f\<close> of \<^verbatim>\<open>Hunt\<close>: one map-objects call and what follows it.\<close>

definition Hunt_f :: "world \<Rightarrow> error option \<times> world" where
  "Hunt_f w =
     (let w' = w\<lparr>calls := stl (calls w), trace := trace w @ [GetPlayerMapCall]\<rparr>
      in case shd (calls w) of
           Inr r \<Rightarrow>
             (case AddScannedLocation (Lat (Location w')) (Lon (Location w')) (emit (Publish r) w') of
                (Some err, w'') \<Rightarrow> (Some err, w'')
              | (None, w'') \<Rightarrow> (None, w''))
         | Inl err \<Rightarrow> (Some err, w'))"

text \<open>The call of \<^verbatim>\<open>f\<close>, the retry after \<^verbatim>\<open>api.ErrNewRPCURL\<close> and the log of the error.\<close>

definition scan :: "world \<Rightarrow> world" where
  "scan w =
     (case Hunt_f w of
        (err, w') \<Rightarrow>
          (case (if err \<noteq> None \<and> err = Some ErrNewRPCURL then Hunt_f (recv_ticks w') else (err, w')) of
             (Some e, w'') \<Rightarrow> emit (Log (LoggedError e)) w''
           | (None, w'') \<Rightarrow> w''))"

text \<open>One round of the loop: \<open>Abandoned\<close> when the round ends in \<^verbatim>\<open>return\<close>.\<close>

definition Hunt_round :: "world \<Rightarrow> verdict \<times> world" where
  "Hunt_round w =
     (case check_login w of
        (Abandoned, w1) \<Rightarrow> (Abandoned, w1)
      | (Continue, w1) \<Rightarrow>
          (case select_location (recv_ticks w1) of
             (None, w2) \<Rightarrow> (Abandoned, emit (Log FailedToGetLocation) w2)
           | (Some l, w2) \<Rightarrow>
               (let w3 = MoveTo l (w2\<lparr>Location := l\<rparr>);
                    w4 = emit (Log (HuntingAt (Lat (Location w3)) (Lon (Location w3)))) w3;
                    w5 = scan w4
                in (Continue, time_Sleep (ScanDelay * Second) w5))))"

text \<open>
  The loop \<^verbatim>\<open>for { ... }\<close> has no exit but the two \<^verbatim>\<open>return\<close>s. It is run for at most a given
  number of rounds: \<open>Abandons\<close> is the state in which \<^verbatim>\<open>Hunt\<close> has returned, \<open>StillHunting\<close>
  the state after the last round when it has not.
\<close>

datatype hunt = Abandons world | StillHunting world

fun Hunt_loop :: "nat \<Rightarrow> world \<Rightarrow> hunt" where
  "Hunt_loop 0 w = StillHunting w"
| "Hunt_loop (Suc n) w =
     (case Hunt_round w of
        (Abandoned, w') \<Rightarrow> Abandons w'
      | (Continue, w') \<Rightarrow> Hunt_loop n w')"

definition Hunt :: "nat \<Rightarrow> world \<Rightarrow> hunt" where
  "Hunt n w = Hunt_loop n (snd (Login (recv_ticks w)))"

text \<open>
  A world in which nothing goes wrong, used where an input is evaluated: the worker holds
  the zero session at time 0, every permit takes one nanosecond, every login yields a
  session that lasts, a coordinate is in the queue after five nanoseconds, every
  map-objects call and every statement succeeds.
\<close>

definition calm :: world where
  "calm =
     \<lparr>now = 0,
      Location = \<lparr>Lat = 0, Lon = 0, Alt = 0, Accuracy = 0\<rparr>,
      Session = \<lparr>expires = 0\<rparr>,
      trace = [],
      ticks = sconst 1,
      logins = sconst (LoggedIn \<lparr>expires = 1000000000000000\<rparr>),
      arrivals = sconst (5, \<lparr>Lat = 1, Lon = 2, Alt = 0, Accuracy = 5\<rparr>),
      calls = sconst (Inr (MapObjects 0)),
      execs = sconst None\<rparr>"

text \<open>A stand-in for the geometry package on a plane, used where an input is evaluated.\<close>

definition plane :: geo where
  "plane =
     \<lparr>PointAtDistanceAndBearing = (\<lambda>p d b.
        if b = 0 then (fst p + d, snd p)
        else if b = 90 then (fst p, snd p + d)
        else if b = 180 then (fst p - d, snd p)
        else if b = 270 then (fst p, snd p - d)
        else p),
      GreatCircleDistance = (\<lambda>p q. \<bar>fst p - fst q\<bar> + \<bar>snd p - snd q\<bar>),
      Contains = (\<lambda>vs p. True)\<rparr>"

definition origin :: Location where
  "origin = \<lparr>Lat = 0, Lon = 0, Alt = 0, Accuracy = 0\<rparr>"

section \<open>Properties of the honeycomb generator\<close>

lemma edge_ex: "\<exists>c p. length p = n \<and> (\<forall>l. edge move n (cur, l) = (c, l @ p))"
proof (induction n arbitrary: cur)
  case 0
  show ?case by simp
next
  case (Suc n)
  from Suc.IH [of "move cur"] obtain c p
    where p: "length p = n" and e: "\<And>l. edge move n (move cur, l) = (c, l @ p)"
    by blast
  have "length (move cur # p) = Suc n" using p by simp
  moreover have "\<forall>l. edge move (Suc n) (cur, l) = (c, l @ move cur # p)"
    by (simp add: e)
  ultimately show ?case by blast
qed

lemma ring_body_ex:
  "\<exists>c p. length p = 6 * nat ring \<and> (\<forall>l. ring_body g dx dy ring (cur, l) = (c, l @ p))"
proof -
  define n where "n = nat ring"
  obtain c1 p1 where 1: "length p1 = n"
    "\<And>l. edge (\<lambda>c. newLocation g (newLocation g c dy NORTH) (dx / 2) WEST) n
            (newLocation g cur dx EAST, l) = (c1, l @ p1)"
    using edge_ex by blast
  obtain c2 p2 where 2: "length p2 = n"
    "\<And>l. edge (\<lambda>c. newLocation g c dx WEST) n (c1, l) = (c2, l @ p2)"
    using edge_ex by blast
  obtain c3 p3 where 3: "length p3 = n"
    "\<And>l. edge (\<lambda>c. newLocation g (newLocation g c (dx / 2) WEST) dy SOUTH) n (c2, l) = (c3, l @ p3)"
    using edge_ex by blast
  obtain c4 p4 where 4: "length p4 = n"
    "\<And>l. edge (\<lambda>c. newLocation g (newLocation g c dy SOUTH) (dx / 2) EAST) n (c3, l) = (c4, l @ p4)"
    using edge_ex by blast
  obtain c5 p5 where 5: "length p5 = n"
    "\<And>l. edge (\<lambda>c. newLocation g c dx EAST) n (c4, l) = (c5, l @ p5)"
    using edge_ex by blast
  obtain c6 p6 where 6: "length p6 = n"
    "\<And>l. edge (\<lambda>c. newLocation g (newLocation g c (dx / 2) EAST) dy NORTH) n (c5, l) = (c6, l @ p6)"
    using edge_ex by blast
  have "length (p1 @ p2 @ p3 @ p4 @ p5 @ p6) = 6 * nat ring"
    using 1(1) 2(1) 3(1) 4(1) 5(1) 6(1) by (simp add: n_def)
  moreover have "\<forall>l. ring_body g dx dy ring (cur, l) = (c6, l @ p1 @ p2 @ p3 @ p4 @ p5 @ p6)"
    unfolding ring_body_def Let_def n_def [symmetric]
    by (simp add: 1(2) 2(2) 3(2) 4(2) 5(2) 6(2))
  ultimately show ?thesis by blast
qed

lemma ring_body_split:
  "ring_body g dx dy ring (cur, locs) =
     (fst (ring_body g dx dy ring (cur, [])), locs @ snd (ring_body g dx dy ring (cur, [])))"
proof -
  obtain c p where e: "\<And>l. ring_body g dx dy ring (cur, l) = (c, l @ p)"
    using ring_body_ex by blast
  show ?thesis by (simp add: e)
qed

lemma ring_body_length: "length (snd (ring_body g dx dy ring (cur, []))) = 6 * nat ring"
proof -
  obtain c p where "length p = 6 * nat ring" and e: "\<And>l. ring_body g dx dy ring (cur, l) = (c, l @ p)"
    using ring_body_ex by blast
  then show ?thesis by simp
qed

lemma ring_loop_segments:
  "snd (ring_loop g dx dy ring rings (cur, locs)) = locs @ concat (ring_segments g dx dy ring rings cur)"
proof (induction g dx dy ring rings cur arbitrary: locs rule: ring_segments.induct)
  case (1 g dx dy ring rings cur)
  show ?case
  proof (cases "ring < rings")
    case True
    have "snd (ring_loop g dx dy ring rings (cur, locs)) =
          snd (ring_loop g dx dy (ring + 1) rings
                (fst (ring_body g dx dy ring (cur, [])), locs @ snd (ring_body g dx dy ring (cur, []))))"
      using True by (subst ring_loop.simps) (simp add: ring_body_split [of g dx dy ring cur locs])
    also have "\<dots> = (locs @ snd (ring_body g dx dy ring (cur, []))) @
        concat (ring_segments g dx dy (ring + 1) rings (fst (ring_body g dx dy ring (cur, []))))"
      using "1.IH" [OF True] by simp
    also have "\<dots> = locs @ concat (ring_segments g dx dy ring rings cur)"
      using True by (subst (2) ring_segments.simps) simp
    finally show ?thesis .
  next
    case False
    then show ?thesis
      by (subst ring_loop.simps, subst ring_segments.simps) simp
  qed
qed



lemma ring_segments_total:
  "0 \<le> ring \<Longrightarrow>
     length (concat (ring_segments g dx dy ring rings cur)) + 3 * nat ring * (nat ring - 1)
       = (if ring < rings then 3 * nat rings * (nat rings - 1) else 3 * nat ring * (nat ring - 1))"
proof (induction g dx dy ring rings cur rule: ring_segments.induct)
  case (1 g dx dy ring rings cur)
  show ?case
  proof (cases "ring < rings")
    case True
    have ih: "length (concat (ring_segments g dx dy (ring + 1) rings (fst (ring_body g dx dy ring (cur, [])))))
        + 3 * nat (ring + 1) * (nat (ring + 1) - 1)
       = (if ring + 1 < rings then 3 * nat rings * (nat rings - 1) else 3 * nat (ring + 1) * (nat (ring + 1) - 1))"
      using "1.prems" by (intro "1.IH" [OF True]) simp
    have s: "nat (ring + 1) = Suc (nat ring)" using "1.prems" by simp
    have e: "\<not> ring + 1 < rings \<Longrightarrow> nat rings = Suc (nat ring)" using True "1.prems" by linarith
    have k: "3 * Suc (nat ring) * nat ring = 6 * nat ring + 3 * nat ring * (nat ring - 1)"
      by (cases "nat ring") (simp_all add: algebra_simps)
    have unf: "ring_segments g dx dy ring rings cur =
        snd (ring_body g dx dy ring (cur, []))
          # ring_segments g dx dy (ring + 1) rings (fst (ring_body g dx dy ring (cur, [])))"
      using True by (subst ring_segments.simps) simp
    show ?thesis
    proof (cases "ring + 1 < rings")
      case True
      then show ?thesis using \<open>ring < rings\<close> ih k
        by (simp add: unf s ring_body_length)
    next
      case False
      then show ?thesis using \<open>ring < rings\<close> ih k e
        by (simp add: unf s ring_body_length)
    qed
  next
    case False
    then show ?thesis by (subst ring_segments.simps) simp
  qed
qed


lemma rings_50_70: "\<lceil>50 / (sqrt 3 * 70)\<rceil> = (1::int)"
proof -
  have b: "1 < sqrt 3" by (rule real_less_rsqrt) simp
  have "0 < 50 / (sqrt 3 * 70)" by simp
  moreover have "50 \<le> sqrt 3 * 70" using b by linarith
  then have "50 / (sqrt 3 * 70) \<le> 1" by (simp add: field_simps)
  ultimately show ?thesis by (simp add: ceiling_eq_iff)
qed

lemma generateHoneyComb_concat:
  "generateHoneyComb g center radius distance = concat (honeycomb_rings g center radius distance)"
  by (simp add: generateHoneyComb_def honeycomb_rings_def Let_def ring_loop_segments)



lemma generateHoneyComb_length:
  "length (generateHoneyComb g center radius distance) =
     3 * nat \<lceil>radius / (sqrt 3 * distance)\<rceil> * (nat \<lceil>radius / (sqrt 3 * distance)\<rceil> - 1)"
proof -
  let ?R = "\<lceil>radius / (sqrt 3 * distance)\<rceil>"
  have "length (concat (ring_segments g (sqrt 3 * distance) (3 * (distance / 2)) 1 ?R center))
          + 3 * nat 1 * (nat 1 - 1)
        = (if 1 < ?R then 3 * nat ?R * (nat ?R - 1) else 3 * nat 1 * (nat 1 - 1))"
    by (rule ring_segments_total) simp
  moreover have "\<not> 1 < ?R \<Longrightarrow> nat ?R * (nat ?R - 1) = 0"
    by (cases "?R \<le> 0") (auto simp: not_less nat_le_eq_zle dest!: antisym)
  ultimately show ?thesis
    by (simp add: generateHoneyComb_concat honeycomb_rings_def split: if_splits)
qed






section \<open>Properties of the honeycomb provider\<close>

lemma generateHoneyComb_nonempty:
  "generateHoneyComb g center radius distance \<noteq> [] \<longleftrightarrow> 2 \<le> \<lceil>radius / (sqrt 3 * distance)\<rceil>"
proof -
  let ?R = "\<lceil>radius / (sqrt 3 * distance)\<rceil>"
  have "generateHoneyComb g center radius distance \<noteq> [] \<longleftrightarrow>
          0 < length (generateHoneyComb g center radius distance)"
    by simp
  also have "\<dots> \<longleftrightarrow> 0 < 3 * nat ?R * (nat ?R - 1)"
    by (simp only: generateHoneyComb_length)
  also have "\<dots> \<longleftrightarrow> 2 \<le> ?R"
    by auto
  finally show ?thesis .
qed



lemma generateHoneyComb_50_70: "generateHoneyComb g center 50 70 = []"
  using generateHoneyComb_nonempty [of g center 50 70] unfolding rings_50_70 by simp


section \<open>Properties of the fixed provider\<close>

lemma choices_mem: "choices ! (rnd mod length choices) \<in> {5, 10, 30, 50, 65}"
proof -
  have "rnd mod 8 < 8" by simp
  then have "rnd mod 8 \<in> {0, 1, 2, 3, 4, 5, 6, 7}" by auto
  then show ?thesis by (auto simp: choices_def)
qed

lemma DefaultLocationProvider_calls_props:
  "length (DefaultLocationProvider_calls d rnds) = length rnds
     \<and> (\<forall>k<length rnds.
           Lat (DefaultLocationProvider_calls d rnds ! k) = Lat (StartLocation d)
         \<and> Lon (DefaultLocationProvider_calls d rnds ! k) = Lon (StartLocation d)
         \<and> Accuracy (DefaultLocationProvider_calls d rnds ! k) = choices ! (rnds ! k mod length choices))"
proof (induction rnds arbitrary: d)
  case Nil
  show ?case by simp
next
  case (Cons rnd rnds)
  let ?d = "d\<lparr>StartLocation := setRandomAccuracy rnd (StartLocation d)\<rparr>"
  have c: "DefaultLocationProvider_calls d (rnd # rnds) =
             setRandomAccuracy rnd (StartLocation d) # DefaultLocationProvider_calls ?d rnds"
    by (simp add: DefaultLocationProvider_NextLocation_def Let_def)
  have s: "Lat (StartLocation ?d) = Lat (StartLocation d)" "Lon (StartLocation ?d) = Lon (StartLocation d)"
    by (simp_all add: setRandomAccuracy_def)
  show ?case
  proof (intro conjI allI impI)
    show "length (DefaultLocationProvider_calls d (rnd # rnds)) = length (rnd # rnds)"
      using Cons.IH [of ?d] unfolding c by simp
  next
    fix k assume k: "k < length (rnd # rnds)"
    show "Lat (DefaultLocationProvider_calls d (rnd # rnds) ! k) = Lat (StartLocation d)"
      using Cons.IH [of ?d] k s unfolding c by (cases k) (simp_all add: setRandomAccuracy_def)
    show "Lon (DefaultLocationProvider_calls d (rnd # rnds) ! k) = Lon (StartLocation d)"
      using Cons.IH [of ?d] k s unfolding c by (cases k) (simp_all add: setRandomAccuracy_def)
    show "Accuracy (DefaultLocationProvider_calls d (rnd # rnds) ! k) =
            choices ! ((rnd # rnds) ! k mod length choices)"
      using Cons.IH [of ?d] k unfolding c by (cases k) (simp_all add: setRandomAccuracy_def)
  qed
qed

text \<open>
  Claim C8. For every sequence of calls on a fixed provider, each call returns, every
  returned coordinate has the latitude and longitude of the start location, its accuracy
  is one of 5, 10, 30, 50, 65, and it is drawn anew at each call: the accuracy of call
  \<open>k\<close> is the entry of \<open>choices\<close> that the \<open>k\<close>-th draw selects.
\<close>

theorem DefaultLocationProvider_fixed_point:
  "length (DefaultLocationProvider_calls d rnds) = length rnds
     \<and> (\<forall>l \<in> set (DefaultLocationProvider_calls d rnds).
           Lat l = Lat (StartLocation d) \<and> Lon l = Lon (StartLocation d)
         \<and> Accuracy l \<in> {5, 10, 30, 50, 65})
     \<and> (\<forall>k<length rnds.
           Accuracy (DefaultLocationProvider_calls d rnds ! k) = choices ! (rnds ! k mod length choices))"
proof -
  note p = DefaultLocationProvider_calls_props [of d rnds]
  have "\<forall>l \<in> set (DefaultLocationProvider_calls d rnds).
           Lat l = Lat (StartLocation d) \<and> Lon l = Lon (StartLocation d)
         \<and> Accuracy l \<in> {5, 10, 30, 50, 65}"
  proof
    fix l assume "l \<in> set (DefaultLocationProvider_calls d rnds)"
    then obtain k where k: "k < length rnds" and l: "l = DefaultLocationProvider_calls d rnds ! k"
      using p by (auto simp: in_set_conv_nth)
    from p k have "Lat l = Lat (StartLocation d)" "Lon l = Lon (StartLocation d)"
      "Accuracy l = choices ! (rnds ! k mod length choices)"
      unfolding l by blast+
    then show "Lat l = Lat (StartLocation d) \<and> Lon l = Lon (StartLocation d)
         \<and> Accuracy l \<in> {5, 10, 30, 50, 65}"
      using choices_mem [of "rnds ! k"] by simp
  qed
  with p show ?thesis by blast
qed

text \<open>Claim C8 for four calls with the draws 0, 3, 14, 7.\<close>

theorem DefaultLocationProvider_fixed_point_witness:
  "map Lat (DefaultLocationProvider_calls \<lparr>StartLocation = origin\<rparr> [0, 3, 14, 7]) = [0, 0, 0, 0]
     \<and> map Lon (DefaultLocationProvider_calls \<lparr>StartLocation = origin\<rparr> [0, 3, 14, 7]) = [0, 0, 0, 0]
     \<and> map Accuracy (DefaultLocationProvider_calls \<lparr>StartLocation = origin\<rparr> [0, 3, 14, 7]) = [5, 10, 50, 65]
     \<and> length (DefaultLocationProvider_calls \<lparr>StartLocation = origin\<rparr> [0, 3, 14, 7]) = 4"
  using DefaultLocationProvider_fixed_point [of "\<lparr>StartLocation = origin\<rparr>" "[0, 3, 14, 7]"]
  by (simp add: DefaultLocationProvider_NextLocation_def setRandomAccuracy_def choices_def origin_def Let_def)

section \<open>Properties of the altitude enrichment\<close>



lemma ceil_div_nat:
  fixes n k :: nat
  assumes "0 < k"
  shows "nat \<lceil>real n / real k\<rceil> = (n + (k - 1)) div k"
proof -
  define q where "q = (n + (k - 1)) div k"
  define r where "r = (n + (k - 1)) mod k"
  have e: "n + (k - 1) = q * k + r" by (simp add: q_def r_def)
  have r: "r < k" using assms by (simp add: r_def)
  have up: "n \<le> q * k" using e r by linarith
  have lo: "q * k < n + k" using e assms by linarith
  have "\<lceil>real n / real k\<rceil> = int q"
  proof (rule ceiling_unique)
    have "real n \<le> real (q * k)" using up by (simp only: of_nat_le_iff)
    then show "real n / real k \<le> of_int (int q)" using assms by (simp add: field_simps)
    have "real (q * k) < real (n + k)" using lo by (simp only: of_nat_less_iff)
    then show "of_int (int q) - 1 < real n / real k" using assms by (simp add: field_simps)
  qed
  then show ?thesis by (simp add: q_def)
qed

lemma numRequests_eq: "numRequests n = (n + 404) div 405"
  using ceil_div_nat [of 405 n] by (simp add: numRequests_def rateLimit_def)








lemma request_loop_stop:
  "\<not> i < n \<Longrightarrow> request_loop api ps i n el sent = (Returned (el, None), sent)"
  by (subst request_loop.simps) simp
















section \<open>Properties of the polygon provider\<close>







section \<open>The cursor of the honeycomb and polygon providers\<close>

lemma SetCorrectAltitudes_Nil: "SetCorrectAltitudes api [] = Returned ([], None)"
  by (simp add: SetCorrectAltitudes_def GetAltitude_def GetAltitude_requests_def numRequests_eq
      request_loop_stop)

lemma polygon_final_small: "polygon_final plane [(0, 0), (1 / 20, 0)] = []"
proof -
  have r: "1000 * polygon_radius plane [(0, 0), (1 / 20, 0)] = 50"
    by (simp add: polygon_radius_def plane_def)
  show ?thesis
    unfolding polygon_final_def Let_def r by (simp add: generateHoneyComb_50_70)
qed

text \<open>
  Claim C7 at the failing input. The honeycomb provider constructed for radius 50 and
  spacing 70 has no location; the polygon provider constructed for a polygon 50 metres
  across has none either, since no ring of the honeycomb fits into it, and its
  construction succeeds. On both the first \<open>NextLocation\<close> sets the cursor to 0 and
  indexes an empty slice.
\<close>

theorem NextLocation_empty_provider_panics:
  "HoneyCombProvider_NextLocation (NewHoneyCombProvider g center 50 70) rnd = Panic
     \<and> NewPolygonProvider plane api [origin, origin\<lparr>Lat := 1 / 20\<rparr>]
         = Returned (\<lparr>Polygon = Some [(0, 0), (1 / 20, 0)], Locations_p = [], currentLocation = - 1\<rparr>, None)
     \<and> PolygonProvider_NextLocation
           \<lparr>Polygon = Some [(0, 0), (1 / 20, 0)], Locations_p = [], currentLocation = - 1\<rparr> rnd = Panic"
proof -
  have p: "map latLng [origin, origin\<lparr>Lat := 1 / 20\<rparr>] = [(0, 0), (1 / 20, 0)]"
    by (simp add: latLng_def origin_def)
  have "NewPolygonProvider plane api [origin, origin\<lparr>Lat := 1 / 20\<rparr>]
         = Returned (\<lparr>Polygon = Some [(0, 0), (1 / 20, 0)], Locations_p = [], currentLocation = - 1\<rparr>, None)"
    unfolding NewPolygonProvider_def Let_def p polygon_final_small SetCorrectAltitudes_Nil by simp
  then show ?thesis
    by (simp add: HoneyCombProvider_NextLocation_def PolygonProvider_NextLocation_def
        NewHoneyCombProvider_def generateHoneyComb_50_70)
qed

text \<open>
  On a provider that has a location, and whose cursor is -1 or an index of the list,
  \<open>NextLocation\<close> returns: the cursor advances by one, wraps to 0 at the length, and
  indexes inside the list.
\<close>

lemma HoneyCombProvider_NextLocation_in_bounds:
  assumes "Locations h \<noteq> []" and "- 1 \<le> CurrentStep h" and "CurrentStep h < int (length (Locations h))"
  shows "\<exists>l h'. HoneyCombProvider_NextLocation h rnd = Returned (l, h')
           \<and> CurrentStep h' = (CurrentStep h + 1) mod int (length (Locations h))
           \<and> 0 \<le> CurrentStep h' \<and> CurrentStep h' < int (length (Locations h'))
           \<and> length (Locations h') = length (Locations h)
           \<and> l = setRandomAccuracy rnd (Locations h ! nat (CurrentStep h'))"
proof (cases "CurrentStep h + 1 \<ge> int (length (Locations h))")
  case True
  with assms have "CurrentStep h + 1 = int (length (Locations h))" by simp
  with assms(1) show ?thesis
    by (simp add: HoneyCombProvider_NextLocation_def Let_def)
next
  case False
  with assms show ?thesis
    by (simp add: HoneyCombProvider_NextLocation_def Let_def)
qed

lemma PolygonProvider_NextLocation_in_bounds:
  assumes "Locations_p p \<noteq> []" and "- 1 \<le> currentLocation p"
    and "currentLocation p < int (length (Locations_p p))"
  shows "\<exists>l p'. PolygonProvider_NextLocation p rnd = Returned (l, p')
           \<and> currentLocation p' = (currentLocation p + 1) mod int (length (Locations_p p))
           \<and> 0 \<le> currentLocation p' \<and> currentLocation p' < int (length (Locations_p p'))
           \<and> length (Locations_p p') = length (Locations_p p)
           \<and> l = setRandomAccuracy rnd (Locations_p p ! nat (currentLocation p'))"
proof (cases "currentLocation p + 1 \<ge> int (length (Locations_p p))")
  case True
  with assms have "currentLocation p + 1 = int (length (Locations_p p))" by simp
  with assms(1) show ?thesis
    by (simp add: PolygonProvider_NextLocation_def Let_def)
next
  case False
  with assms show ?thesis
    by (simp add: PolygonProvider_NextLocation_def Let_def)
qed

section \<open>Properties of the worker\<close>

lemma emit_sel [simp]:
  "trace (emit e w) = trace w @ [e]" "now (emit e w) = now w" "Session (emit e w) = Session w"
  "Location (emit e w) = Location w" "ticks (emit e w) = ticks w" "logins (emit e w) = logins w"
  "arrivals (emit e w) = arrivals w" "calls (emit e w) = calls w" "execs (emit e w) = execs w"
  by (simp_all add: emit_def)

lemma recv_ticks_sel [simp]:
  "trace (recv_ticks w) = trace w @ [Tick]" "now (recv_ticks w) = now w + shd (ticks w)"
  "Session (recv_ticks w) = Session w" "Location (recv_ticks w) = Location w"
  "ticks (recv_ticks w) = stl (ticks w)" "logins (recv_ticks w) = logins w"
  "arrivals (recv_ticks w) = arrivals w" "calls (recv_ticks w) = calls w" "execs (recv_ticks w) = execs w"
  by (simp_all add: recv_ticks_def)

lemma time_Sleep_sel [simp]:
  "trace (time_Sleep d w) = trace w @ [Sleep d]" "now (time_Sleep d w) = now w + nat d"
  "Session (time_Sleep d w) = Session w" "Location (time_Sleep d w) = Location w"
  "ticks (time_Sleep d w) = ticks w" "logins (time_Sleep d w) = logins w"
  "arrivals (time_Sleep d w) = arrivals w" "calls (time_Sleep d w) = calls w" "execs (time_Sleep d w) = execs w"
  by (simp_all add: time_Sleep_def)



lemma login_error_LoggedIn [simp]: "login_error (LoggedIn s) = None"
  by (simp add: login_error_def)




lemma check_login_valid: "\<not> IsExpired (Session w) (now w) \<Longrightarrow> check_login w = (Continue, w)"
  by (simp add: check_login_def)


lemma Hunt_loop_abandoned:
  "fst (Hunt_round w) = Abandoned \<Longrightarrow> Hunt_loop (Suc n) w = Abandons (snd (Hunt_round w))"
  by (cases "Hunt_round w") simp



lemma select_location_received:
  assumes "int (fst (shd (arrivals v))) < 30 * Second"
  shows "fst (select_location v) = Some (snd (shd (arrivals v)))"
    and "trace (snd (select_location v)) = trace v @ [Received (snd (shd (arrivals v)))]"
    and "now (snd (select_location v)) = now v + fst (shd (arrivals v))"
    and "arrivals (snd (select_location v)) = stl (arrivals v)"
    and "calls (snd (select_location v)) = calls v" and "execs (snd (select_location v)) = execs v"
    and "ticks (snd (select_location v)) = ticks v" and "logins (snd (select_location v)) = logins v"
    and "Session (snd (select_location v)) = Session v"
  using assms by (simp_all add: select_location_def Let_def case_prod_beta)

lemma select_location_timeout:
  assumes "\<not> int (fst (shd (arrivals v))) < 30 * Second"
  shows "fst (select_location v) = None"
    and "trace (snd (select_location v)) = trace v @ [TimedOut (30 * Second)]"
    and "now (snd (select_location v)) = now v + nat (30 * Second)"
    and "arrivals (snd (select_location v)) = arrivals v"
    and "calls (snd (select_location v)) = calls v" and "execs (snd (select_location v)) = execs v"
    and "ticks (snd (select_location v)) = ticks v" and "logins (snd (select_location v)) = logins v"
    and "Session (snd (select_location v)) = Session v"
  using assms by (simp_all add: select_location_def Let_def case_prod_beta)

lemma select_location_bound: "now (snd (select_location v)) \<le> now v + nat (30 * Second)"
proof (cases "int (fst (shd (arrivals v))) < 30 * Second")
  case True
  then show ?thesis by (simp add: select_location_received(3))
next
  case False
  then show ?thesis by (simp add: select_location_timeout(3))
qed

lemma MoveTo_sel [simp]:
  "trace (MoveTo l v) = trace v @ [MovedTo l]" "Location (MoveTo l v) = l" "now (MoveTo l v) = now v"
  "calls (MoveTo l v) = calls v" "execs (MoveTo l v) = execs v" "ticks (MoveTo l v) = ticks v"
  "arrivals (MoveTo l v) = arrivals v" "logins (MoveTo l v) = logins v" "Session (MoveTo l v) = Session v"
  by (simp_all add: MoveTo_def emit_def)

lemma ExecuteStatement_sel [simp]:
  "fst (ExecuteStatement st v) = shd (execs v)"
  "trace (snd (ExecuteStatement st v)) = trace v @ [Exec st]"
  "execs (snd (ExecuteStatement st v)) = stl (execs v)"
  "calls (snd (ExecuteStatement st v)) = calls v" "ticks (snd (ExecuteStatement st v)) = ticks v"
  "now (snd (ExecuteStatement st v)) = now v" "Location (snd (ExecuteStatement st v)) = Location v"
  by (simp_all add: ExecuteStatement_def)








lemma Hunt_round_times_out:
  assumes "check_login w = (Continue, w1)"
    and "\<not> int (fst (shd (arrivals w1))) < 30 * Second"
  shows "Hunt_round w = (Abandoned, emit (Log FailedToGetLocation) (snd (select_location (recv_ticks w1))))"
proof -
  have a: "\<not> int (fst (shd (arrivals (recv_ticks w1)))) < 30 * Second" using assms(2) by simp
  obtain x v where s: "select_location (recv_ticks w1) = (x, v)" by (cases "select_location (recv_ticks w1)")
  have x: "x = None" using select_location_timeout(1) [OF a] by (simp add: s)
  show ?thesis by (simp add: Hunt_round_def assms(1) s x)
qed








text \<open>
  Claim C5. In every round the \<^verbatim>\<open>select\<close> ends at most 30 seconds after it began. When the
  login check lets the round go on and no coordinate is in the queue before the timer of
  30 seconds fires, the round takes its permit, waits these 30 seconds, logs the failure
  and returns: the worker is abandoned, no map-objects call is made in this round (the
  stream of responses is untouched), and the loop returns in this state whatever number
  of rounds it was given, so nothing follows.
\<close>

theorem Hunt_round_location_timeout:
  assumes "check_login w = (Continue, w1)"
    and "30 * Second \<le> int (fst (shd (arrivals w1)))"
  shows "fst (Hunt_round w) = Abandoned
       \<and> trace (snd (Hunt_round w)) = trace w1 @ [Tick, TimedOut (30 * Second), Log FailedToGetLocation]
       \<and> now (snd (Hunt_round w)) = now w1 + shd (ticks w1) + nat (30 * Second)
       \<and> calls (snd (Hunt_round w)) = calls w1
       \<and> (\<forall>n. Hunt_loop (Suc n) w = Abandons (snd (Hunt_round w)))
       \<and> (\<forall>v. now (snd (select_location v)) \<le> now v + nat (30 * Second))"
proof -
  have n: "\<not> int (fst (shd (arrivals w1))) < 30 * Second" using assms(2) by simp
  have a: "\<not> int (fst (shd (arrivals (recv_ticks w1)))) < 30 * Second" using n by simp
  note h = Hunt_round_times_out [OF assms(1) n]
  note s = select_location_timeout [OF a]
  have f: "fst (Hunt_round w) = Abandoned" by (simp add: h)
  show ?thesis
  proof (intro conjI allI)
    show "fst (Hunt_round w) = Abandoned" by (rule f)
    show "trace (snd (Hunt_round w)) = trace w1 @ [Tick, TimedOut (30 * Second), Log FailedToGetLocation]"
      by (simp add: h s)
    show "now (snd (Hunt_round w)) = now w1 + shd (ticks w1) + nat (30 * Second)"
      by (simp add: h s)
    show "calls (snd (Hunt_round w)) = calls w1" by (simp add: h s)
    show "Hunt_loop (Suc n) w = Abandons (snd (Hunt_round w))" for n
      using f by (rule Hunt_loop_abandoned)
    show "now (snd (select_location v)) \<le> now v + nat (30 * Second)" for v
      by (rule select_location_bound)
  qed
qed



lemma calm_logged_in:
  "check_login (calm\<lparr>Session := \<lparr>expires = 1000000000000000\<rparr>, arrivals := a, calls := c, execs := x\<rparr>)
     = (Continue, calm\<lparr>Session := \<lparr>expires = 1000000000000000\<rparr>, arrivals := a, calls := c, execs := x\<rparr>)"
  by (rule check_login_valid) (simp add: calm_def IsExpired_def)

text \<open>Claim C5 for a logged-in worker whose next coordinate comes after 40 seconds.\<close>

theorem Hunt_round_location_timeout_witness:
  "fst (Hunt_round (calm\<lparr>Session := \<lparr>expires = 1000000000000000\<rparr>,
          arrivals := sconst (40000000000, origin), calls := calls calm, execs := execs calm\<rparr>)) = Abandoned
   \<and> trace (snd (Hunt_round (calm\<lparr>Session := \<lparr>expires = 1000000000000000\<rparr>,
          arrivals := sconst (40000000000, origin), calls := calls calm, execs := execs calm\<rparr>)))
       = [Tick, TimedOut 30000000000, Log FailedToGetLocation]
   \<and> now (snd (Hunt_round (calm\<lparr>Session := \<lparr>expires = 1000000000000000\<rparr>,
          arrivals := sconst (40000000000, origin), calls := calls calm, execs := execs calm\<rparr>)))
       = 30000000001
   \<and> Hunt_loop (Suc 3) (calm\<lparr>Session := \<lparr>expires = 1000000000000000\<rparr>,
          arrivals := sconst (40000000000, origin), calls := calls calm, execs := execs calm\<rparr>)
       = Abandons (snd (Hunt_round (calm\<lparr>Session := \<lparr>expires = 1000000000000000\<rparr>,
          arrivals := sconst (40000000000, origin), calls := calls calm, execs := execs calm\<rparr>)))"
proof -
  define w where "w = calm\<lparr>Session := \<lparr>expires = 1000000000000000\<rparr>,
          arrivals := sconst (40000000000, origin), calls := calls calm, execs := execs calm\<rparr>"
  have a: "check_login w = (Continue, w)" unfolding w_def by (rule calm_logged_in)
  have b: "30 * Second \<le> int (fst (shd (arrivals w)))" by (simp add: w_def Second_def)
  note t = Hunt_round_location_timeout [OF a b]
  have c: "trace w = []" "now w = 0" "shd (ticks w) = 1" by (simp_all add: w_def calm_def)
  from t have h: "Hunt_loop (Suc 3) w = Abandons (snd (Hunt_round w))" by blast
  from t have "fst (Hunt_round w) = Abandoned"
    and "trace (snd (Hunt_round w)) = [Tick, TimedOut 30000000000, Log FailedToGetLocation]"
    and "now (snd (Hunt_round w)) = 30000000001"
    by (simp_all add: c Second_def)
  with h show ?thesis unfolding w_def by blast
qed



end
